theory Spec2Isabelle
  imports Complex_Main
begin

section \<open>Strings\<close>

text \<open>
  Python strings are modelled as \<^typ>\<open>string\<close>, a \<^typ>\<open>char\<close> standing for a code point
  below 256. \<open>isspace\<close> is \<open>str.isspace\<close> on these code points (tab, line feed, vertical
  tab, form feed, carriage return, the four separators 28 to 31, space, next line 133 and
  no-break space 160), and \<open>strip\<close> is \<open>str.strip()\<close> without argument: it drops the
  whitespace at both ends and keeps everything between.
\<close>

definition isspace :: "char \<Rightarrow> bool" where
  "isspace c = (of_char c \<in> {9, 10, 11, 12, 13, 28, 29, 30, 31, 32, 133, 160 :: nat})"

definition strip :: "string \<Rightarrow> string" where
  "strip s = rev (dropWhile isspace (rev (dropWhile isspace s)))"

section \<open>Data model\<close>

text \<open>
  The table \<open>products\<close> of \<open>main.py\<close>. A row is a \<open>Product\<close>; the columns declared
  \<open>nullable=False\<close> have the column's type, the two nullable ones an option. Prices are
  Python floats; only their order is used, so they are modelled as reals (the finite
  floats with their order). The fields carry a prefix, since the three classes of the
  source share their field names: \<open>p_\<close> for \<open>Product\<close>, \<open>c_\<close> for \<open>ProductCreate\<close>,
  \<open>u_\<close> for \<open>ProductUpdate\<close>, \<open>r_\<close> for a request body.
\<close>

record Product =
  p_id :: int
  p_name :: string
  p_price :: real
  p_quantity :: int
  p_description :: "string option"
  p_category :: "string option"

text \<open>
  The session's database: the rows in insertion order. The constraints of the schema are
  the primary key \<open>id\<close> and \<open>UniqueConstraint('name')\<close>.
\<close>

type_synonym db = "Product list"

definition store_ok :: "db \<Rightarrow> bool" where
  "store_ok d = (distinct (map p_id d) \<and> distinct (map p_name d))"

text \<open>
  Python's integers are unbounded, an \<open>INTEGER\<close> of the table is a signed 64-bit value.
  \<open>int64\<close> holds of the integers that can be bound as a parameter of a statement.
\<close>

definition int64 :: "int \<Rightarrow> bool" where
  "int64 n = (- (2 ^ 63) \<le> n \<and> n < 2 ^ 63)"

text \<open>
  A key of a JSON body, and a field of a \<open>ProductUpdate\<close>: not given (\<open>Unset\<close>), given as
  \<open>null\<close> (\<open>Null\<close>), or given with a value of the field's type. For a validated
  \<open>ProductUpdate\<close>, \<open>Unset\<close> is a field outside \<open>model_fields_set\<close>, which
  \<open>dict(exclude_unset=True)\<close> leaves out.
\<close>

datatype 'a field = Unset | Null | Val 'a

record payload =
  r_name :: "string field"
  r_price :: "real field"
  r_quantity :: "int field"
  r_description :: "string field"
  r_category :: "string field"

record ProductCreate =
  c_name :: string
  c_price :: real
  c_quantity :: int
  c_description :: "string option"
  c_category :: "string option"

record ProductUpdate =
  u_name :: "string field"
  u_price :: "real field"
  u_quantity :: "int field"
  u_description :: "string field"
  u_category :: "string field"

section \<open>Validation\<close>

text \<open>
  The validator of both models, run in mode \<open>before\<close> on \<open>name\<close>, \<open>description\<close> and
  \<open>category\<close>: a string that is empty after \<open>strip\<close> raises, anything else is returned
  as it is. \<open>None\<close> is the raised \<open>ValueError\<close>.
\<close>

definition empty_string_not_allowed :: "string field \<Rightarrow> string field option" where
  "empty_string_not_allowed v =
     (case v of
        Val s \<Rightarrow> if strip s = [] then None else Some v
      | _ \<Rightarrow> Some v)"

definition empty_string_not_allowed_update :: "string field \<Rightarrow> string field option" where
  "empty_string_not_allowed_update v =
     (case v of
        Val s \<Rightarrow> if strip s = [] then None else Some v
      | _ \<Rightarrow> Some v)"

text \<open>
  The field declarations. A required field (\<open>Field(...)\<close>) rejects a missing key and
  \<open>null\<close>; an \<open>Optional\<close> field accepts both. \<open>min_length=1\<close>, \<open>gt=0\<close> and \<open>ge=0\<close>
  constrain a given value.
\<close>

definition required_str_min1 :: "string field \<Rightarrow> string option" where
  "required_str_min1 v = (case v of Val s \<Rightarrow> if 1 \<le> length s then Some s else None | _ \<Rightarrow> None)"

definition required_float_gt0 :: "real field \<Rightarrow> real option" where
  "required_float_gt0 v = (case v of Val x \<Rightarrow> if 0 < x then Some x else None | _ \<Rightarrow> None)"

definition required_int_ge0 :: "int field \<Rightarrow> int option" where
  "required_int_ge0 v = (case v of Val n \<Rightarrow> if 0 \<le> n then Some n else None | _ \<Rightarrow> None)"

definition optional_str :: "string field \<Rightarrow> string option option" where
  "optional_str v = (case v of Val s \<Rightarrow> Some (Some s) | _ \<Rightarrow> Some None)"

definition optional_str_min1 :: "string field \<Rightarrow> string field option" where
  "optional_str_min1 v = (case v of Val s \<Rightarrow> if 1 \<le> length s then Some v else None | _ \<Rightarrow> Some v)"

definition optional_float_gt0 :: "real field \<Rightarrow> real field option" where
  "optional_float_gt0 v = (case v of Val x \<Rightarrow> if 0 < x then Some v else None | _ \<Rightarrow> Some v)"

definition optional_int_ge0 :: "int field \<Rightarrow> int field option" where
  "optional_int_ge0 v = (case v of Val n \<Rightarrow> if 0 \<le> n then Some v else None | _ \<Rightarrow> Some v)"

text \<open>
  Building a \<open>ProductCreate\<close> and a \<open>ProductUpdate\<close> from a request body. \<open>None\<close> is the
  \<open>ValidationError\<close>: no object is constructed.
\<close>

definition validate_create :: "payload \<Rightarrow> ProductCreate option" where
  "validate_create r =
     Option.bind (Option.bind (empty_string_not_allowed (r_name r)) required_str_min1) (\<lambda>n.
     Option.bind (required_float_gt0 (r_price r)) (\<lambda>p.
     Option.bind (required_int_ge0 (r_quantity r)) (\<lambda>q.
     Option.bind (Option.bind (empty_string_not_allowed (r_description r)) optional_str) (\<lambda>d.
     Option.bind (Option.bind (empty_string_not_allowed (r_category r)) optional_str) (\<lambda>c.
       Some \<lparr>c_name = n, c_price = p, c_quantity = q, c_description = d, c_category = c\<rparr>)))))"

definition validate_update :: "payload \<Rightarrow> ProductUpdate option" where
  "validate_update r =
     Option.bind (Option.bind (empty_string_not_allowed_update (r_name r)) optional_str_min1) (\<lambda>n.
     Option.bind (optional_float_gt0 (r_price r)) (\<lambda>p.
     Option.bind (optional_int_ge0 (r_quantity r)) (\<lambda>q.
     Option.bind (empty_string_not_allowed_update (r_description r)) (\<lambda>d.
     Option.bind (empty_string_not_allowed_update (r_category r)) (\<lambda>c.
       Some \<lparr>u_name = n, u_price = p, u_quantity = q, u_description = d, u_category = c\<rparr>)))))"

section \<open>The session\<close>

text \<open>
  What a statement can raise. The table raises \<open>IntegrityError\<close> when a constraint of the
  schema fails. The driver raises \<open>OverflowError\<close> when an integer bound as a parameter
  is not a signed 64-bit value; the parameters are bound before the statement runs, so
  this error comes before any check of a constraint. \<open>OverflowError\<close> is not an
  \<open>IntegrityError\<close>: only \<open>except Exception\<close> catches it.
\<close>

datatype db_error = IntegrityError | OverflowError

text \<open>The first row of the table with the id, if there is one.\<close>

definition first_row :: "db \<Rightarrow> int \<Rightarrow> Product option" where
  "first_row d i = find (\<lambda>p. p_id p = i) d"

text \<open>
  \<open>db.query(Product).filter(Product.id == product_id).first()\<close>: the id is bound as a
  parameter of the query.
\<close>

definition query_first :: "db \<Rightarrow> int \<Rightarrow> db_error + Product option" where
  "query_first d i = (if int64 i then Inr (first_row d i) else Inl OverflowError)"

text \<open>
  The id the table assigns to a new row: 1 in an empty table, else one more than the
  largest id in it.
\<close>

definition next_id :: "db \<Rightarrow> int" where
  "next_id d = (if d = [] then 1 else Max (set (map p_id d)) + 1)"

text \<open>
  \<open>db.add(db_product); db.commit(); db.refresh(db_product)\<close>: the quantity is bound as a
  parameter of the insert, then the unique constraint on \<open>name\<close> is checked, the row gets
  its id and is stored.
\<close>

definition commit_insert :: "db \<Rightarrow> ProductCreate \<Rightarrow> db_error + (Product \<times> db)" where
  "commit_insert d c =
     (if \<not> int64 (c_quantity c) then Inl OverflowError
      else if c_name c \<in> set (map p_name d) then Inl IntegrityError
      else let row = \<lparr>p_id = next_id d, p_name = c_name c, p_price = c_price c,
                      p_quantity = c_quantity c, p_description = c_description c,
                      p_category = c_category c\<rparr>
           in Inr (row, d @ [row]))"

text \<open>
  The loaded object after the loop \<open>setattr(db_product, key, value)\<close> over
  \<open>update_data\<close>: every attribute may now hold \<open>None\<close>.
\<close>

record ProductObj =
  o_id :: int
  o_name :: "string option"
  o_price :: "real option"
  o_quantity :: "int option"
  o_description :: "string option"
  o_category :: "string option"

definition setattr :: "'a field \<Rightarrow> 'a option \<Rightarrow> 'a option" where
  "setattr f old = (case f of Unset \<Rightarrow> old | Null \<Rightarrow> None | Val v \<Rightarrow> Some v)"

definition apply_update_data :: "ProductUpdate \<Rightarrow> Product \<Rightarrow> ProductObj" where
  "apply_update_data u p =
     \<lparr>o_id = p_id p,
      o_name = setattr (u_name u) (Some (p_name p)),
      o_price = setattr (u_price u) (Some (p_price p)),
      o_quantity = setattr (u_quantity u) (Some (p_quantity p)),
      o_description = setattr (u_description u) (p_description p),
      o_category = setattr (u_category u) (p_category p)\<rparr>"

text \<open>
  \<open>db.commit(); db.refresh(db_product)\<close> after the attributes were set. The quantity is
  bound as a parameter of the update: \<open>OverflowError\<close> when it is not a 64-bit value.
  Then \<open>IntegrityError\<close> when a column declared \<open>nullable=False\<close> holds \<open>None\<close> or
  another row has the name; otherwise the row with the object's id is replaced. The id of
  the object is the one the query found, so it has been bound before.
\<close>

definition commit_update :: "db \<Rightarrow> ProductObj \<Rightarrow> db_error + (Product \<times> db)" where
  "commit_update d ob =
     (if (case o_quantity ob of Some q \<Rightarrow> \<not> int64 q | None \<Rightarrow> False)
      then Inl OverflowError
      else
       (case (o_name ob, o_price ob, o_quantity ob) of
          (Some n, Some x, Some q) \<Rightarrow>
            if list_ex (\<lambda>p. p_id p \<noteq> o_id ob \<and> p_name p = n) d then Inl IntegrityError
            else let row = \<lparr>p_id = o_id ob, p_name = n, p_price = x, p_quantity = q,
                            p_description = o_description ob, p_category = o_category ob\<rparr>
                 in Inr (row, map (\<lambda>p. if p_id p = o_id ob then row else p) d)
        | _ \<Rightarrow> Inl IntegrityError))"

text \<open>\<open>db.delete(db_product); db.commit()\<close>\<close>

definition commit_delete :: "db \<Rightarrow> Product \<Rightarrow> db" where
  "commit_delete d p = filter (\<lambda>q. p_id q \<noteq> p_id p) d"

section \<open>Handlers\<close>

text \<open>
  A response: the three successful shapes, an \<open>HTTPException\<close> with its status code and
  detail, the 422 answer to a request that fails validation, and the server error of an
  exception no handler catches. A handler takes the database and returns the response
  with the database after the request; a rollback returns the database it was given, and
  so does an exception that leaves the handler, since the session is closed without a
  commit.
\<close>

datatype response =
    Ok_product Product
  | Ok_products "Product list"
  | Ok_message string
  | HTTPException nat string
  | RequestValidationError
  | InternalServerError

definition read_root :: "db \<Rightarrow> response \<times> db" where
  "read_root d = (Ok_message ''Welcome to the Product REST API'', d)"

definition create_product :: "ProductCreate \<Rightarrow> db \<Rightarrow> response \<times> db" where
  "create_product product d =
     (case commit_insert d product of
        Inr (db_product, d') \<Rightarrow> (Ok_product db_product, d')
      | Inl IntegrityError \<Rightarrow>
          (HTTPException 400 ''Product creation failed due to duplicate name.'', d)
      | Inl OverflowError \<Rightarrow>
          (HTTPException 500 ''An error occurred while creating the product.'', d))"

definition get_product :: "int \<Rightarrow> db \<Rightarrow> response \<times> db" where
  "get_product product_id d =
     (case query_first d product_id of
        Inl e \<Rightarrow> (InternalServerError, d)
      | Inr None \<Rightarrow> (HTTPException 404 ''Product not found'', d)
      | Inr (Some product) \<Rightarrow> (Ok_product product, d))"

definition update_product :: "int \<Rightarrow> ProductUpdate \<Rightarrow> db \<Rightarrow> response \<times> db" where
  "update_product product_id product d =
     (case query_first d product_id of
        Inl e \<Rightarrow> (InternalServerError, d)
      | Inr None \<Rightarrow> (HTTPException 404 ''Product not found'', d)
      | Inr (Some db_product) \<Rightarrow>
          (case commit_update d (apply_update_data product db_product) of
             Inr (db_product', d') \<Rightarrow> (Ok_product db_product', d')
           | Inl IntegrityError \<Rightarrow> (HTTPException 400 ''Update failed due to duplicate name.'', d)
           | Inl OverflowError \<Rightarrow> (InternalServerError, d)))"

definition delete_product :: "int \<Rightarrow> db \<Rightarrow> response \<times> db" where
  "delete_product product_id d =
     (case query_first d product_id of
        Inl e \<Rightarrow> (InternalServerError, d)
      | Inr None \<Rightarrow> (HTTPException 404 ''Product not found'', d)
      | Inr (Some db_product) \<Rightarrow>
          (Ok_message ''Product deleted successfully'', commit_delete d db_product))"

definition list_products :: "real option \<Rightarrow> db \<Rightarrow> response \<times> db" where
  "list_products price_gte d =
     (let query = (case price_gte of
                     None \<Rightarrow> d
                   | Some t \<Rightarrow> filter (\<lambda>p. t \<le> p_price p) d);
          products = query
      in (Ok_products (if products \<noteq> [] then products else []), d))"

section \<open>Requests\<close>

text \<open>
  The four routes that return products declare \<open>response_model=ProductResponse\<close> (or a
  list of it). \<open>ProductResponse\<close> extends \<open>ProductCreate\<close> by the id, so what a handler
  returns is validated once more, field by field, as a \<open>ProductCreate\<close> is: \<open>attributes\<close>
  reads the columns of the row, a column holding \<open>None\<close> read as \<open>null\<close>. A returned row
  that the model rejects becomes a server error; the handler has run by then, so the
  database is the one it left.
\<close>

definition attributes :: "Product \<Rightarrow> payload" where
  "attributes p =
     \<lparr>r_name = Val (p_name p), r_price = Val (p_price p), r_quantity = Val (p_quantity p),
      r_description = (case p_description p of None \<Rightarrow> Null | Some s \<Rightarrow> Val s),
      r_category = (case p_category p of None \<Rightarrow> Null | Some s \<Rightarrow> Val s)\<rparr>"

definition ProductResponse :: "Product \<Rightarrow> bool" where
  "ProductResponse p = (case validate_create (attributes p) of None \<Rightarrow> False | Some c \<Rightarrow> True)"

definition response_model :: "response \<times> db \<Rightarrow> response \<times> db" where
  "response_model r =
     (case fst r of
        Ok_product p \<Rightarrow> if ProductResponse p then r else (InternalServerError, snd r)
      | Ok_products ps \<Rightarrow>
          if list_all ProductResponse ps then r else (InternalServerError, snd r)
      | _ \<Rightarrow> r)"

text \<open>
  A request to one of the six routes. The framework builds the handler's parameters
  from the request before it calls the handler: the body of a POST is validated as a
  \<open>ProductCreate\<close>, the body of a PUT as a \<open>ProductUpdate\<close>, and the query parameter
  \<open>price_gte\<close> is checked against \<open>Query(None, ge=0)\<close>. A request that fails there is
  answered 422 and the handler does not run.
\<close>

datatype request =
    GET_root
  | POST_products payload
  | GET_product int
  | PUT_product int payload
  | DELETE_product int
  | GET_products "real option"

fun handle :: "request \<Rightarrow> db \<Rightarrow> response \<times> db" where
  "handle GET_root d = read_root d"
| "handle (POST_products body) d =
     (case validate_create body of
        None \<Rightarrow> (RequestValidationError, d)
      | Some product \<Rightarrow> response_model (create_product product d))"
| "handle (GET_product i) d = response_model (get_product i d)"
| "handle (PUT_product i body) d =
     (case validate_update body of
        None \<Rightarrow> (RequestValidationError, d)
      | Some product \<Rightarrow> response_model (update_product i product d))"
| "handle (DELETE_product i) d = delete_product i d"
| "handle (GET_products price_gte) d =
     (case price_gte of
        None \<Rightarrow> response_model (list_products None d)
      | Some t \<Rightarrow>
          if 0 \<le> t then response_model (list_products (Some t) d)
          else (RequestValidationError, d))"

text \<open>The database after a sequence of requests, served one after the other.\<close>

fun run :: "request list \<Rightarrow> db \<Rightarrow> db" where
  "run [] d = d"
| "run (rq # rqs) d = run rqs (snd (handle rq d))"

section \<open>What the properties are stated with\<close>

text \<open>
  The invariant of the stored rows: each of them is one that \<open>ProductResponse\<close> accepts,
  as every row that went through the validation of a create or an update is.
\<close>

definition rows_ok :: "db \<Rightarrow> bool" where
  "rows_ok d = list_all ProductResponse d"

text \<open>The stored quantities are values of an \<open>INTEGER\<close> column.\<close>

definition quantities_ok :: "db \<Rightarrow> bool" where
  "quantities_ok d = list_all (\<lambda>p. int64 (p_quantity p)) d"

text \<open>The JSON body \<open>{}\<close>: no key is given.\<close>

definition empty_body :: payload where
  "empty_body = \<lparr>r_name = Unset, r_price = Unset, r_quantity = Unset,
                  r_description = Unset, r_category = Unset\<rparr>"

text \<open>
  The record a partial update describes: a key of the body that carries a value replaces
  the field, \<open>null\<close> for one of the two nullable fields clears it, and a key that is
  not given leaves the field as it was.
\<close>

definition replaced :: "payload \<Rightarrow> Product \<Rightarrow> Product" where
  "replaced body p =
     \<lparr>p_id = p_id p,
      p_name = (case r_name body of Val n \<Rightarrow> n | _ \<Rightarrow> p_name p),
      p_price = (case r_price body of Val x \<Rightarrow> x | _ \<Rightarrow> p_price p),
      p_quantity = (case r_quantity body of Val k \<Rightarrow> k | _ \<Rightarrow> p_quantity p),
      p_description = (case r_description body of
                         Unset \<Rightarrow> p_description p | Null \<Rightarrow> None | Val s \<Rightarrow> Some s),
      p_category = (case r_category body of
                      Unset \<Rightarrow> p_category p | Null \<Rightarrow> None | Val s \<Rightarrow> Some s)\<rparr>"



text \<open>Two rows and the request bodies that create them, for the examples.\<close>

abbreviation widget :: Product where
  "widget \<equiv> \<lparr>p_id = 1, p_name = ''Widget'', p_price = 10, p_quantity = 5,
              p_description = None, p_category = None\<rparr>"

abbreviation gadget :: Product where
  "gadget \<equiv> \<lparr>p_id = 2, p_name = ''Gadget'', p_price = 20, p_quantity = 3,
              p_description = Some ''A gadget'', p_category = Some ''Tools''\<rparr>"

abbreviation widget_body :: payload where
  "widget_body \<equiv> \<lparr>r_name = Val ''Widget'', r_price = Val 10, r_quantity = Val 5,
                   r_description = Unset, r_category = Unset\<rparr>"

abbreviation gadget_body :: payload where
  "gadget_body \<equiv> \<lparr>r_name = Val ''Gadget'', r_price = Val 20, r_quantity = Val 3,
                   r_description = Val ''A gadget'', r_category = Val ''Tools''\<rparr>"

text \<open>The two create requests that produce the database of the examples.\<close>

abbreviation two_creates :: "request list" where
  "two_creates \<equiv> [POST_products widget_body, POST_products gadget_body]"

section \<open>Unfolding the model\<close>

lemmas validation_defs =
  validate_create_def validate_update_def empty_string_not_allowed_def
  empty_string_not_allowed_update_def required_str_min1_def required_float_gt0_def
  required_int_ge0_def optional_str_def optional_str_min1_def optional_float_gt0_def
  optional_int_ge0_def strip_def isspace_def

lemmas handler_defs =
  read_root_def create_product_def get_product_def update_product_def delete_product_def
  list_products_def query_first_def next_id_def commit_insert_def commit_update_def
  commit_delete_def apply_update_data_def setattr_def store_ok_def empty_body_def Let_def
  response_model_def ProductResponse_def attributes_def rows_ok_def
  first_row_def int64_def quantities_ok_def

section \<open>Whitespace\<close>

lemma strip_Nil_iff: "strip s = [] \<longleftrightarrow> (\<forall>c\<in>set s. isspace c)"
proof -
  have eq: "strip s = [] \<longleftrightarrow> (\<forall>c\<in>set (dropWhile isspace s). isspace c)"
    by (simp add: strip_def)
  show ?thesis
  proof
    assume "strip s = []"
    with eq have all: "\<forall>c\<in>set (dropWhile isspace s). isspace c" by blast
    have "dropWhile isspace s = []"
    proof (rule ccontr)
      assume ne: "dropWhile isspace s \<noteq> []"
      then have "\<not> isspace (hd (dropWhile isspace s))" by (rule hd_dropWhile)
      moreover have "hd (dropWhile isspace s) \<in> set (dropWhile isspace s)"
        using ne by (rule hd_in_set)
      ultimately show False using all by blast
    qed
    then show "\<forall>c\<in>set s. isspace c" by simp
  next
    assume "\<forall>c\<in>set s. isspace c"
    then have "\<forall>c\<in>set (dropWhile isspace s). isspace c"
      by (blast dest: set_dropWhileD)
    with eq show "strip s = []" by blast
  qed
qed

section \<open>The table\<close>

lemma first_row_None: "first_row d i = None \<longleftrightarrow> i \<notin> set (map p_id d)"
  by (auto simp: first_row_def find_None_iff)

lemma first_row_Some: "first_row d i = Some p \<Longrightarrow> p \<in> set d \<and> p_id p = i"
  by (auto simp: first_row_def find_Some_iff)

lemma next_id_fresh: "next_id d \<notin> set (map p_id d)"
proof
  assume a: "next_id d \<in> set (map p_id d)"
  then have ne: "d \<noteq> []" by auto
  have "next_id d \<le> Max (set (map p_id d))" using a by (intro Max_ge) auto
  then show False using ne by (simp add: next_id_def)
qed

lemma same_id_same_row:
  "distinct (map p_id d) \<Longrightarrow> p \<in> set d \<Longrightarrow> q \<in> set d \<Longrightarrow> p_id q = p_id p \<Longrightarrow> q = p"
  by (meson distinct_map inj_onD)

lemma replace_same_row:
  "distinct (map p_id d) \<Longrightarrow> p \<in> set d \<Longrightarrow> map (\<lambda>q. if p_id q = p_id p then p else q) d = d"
  by (rule map_idI) (auto dest: same_id_same_row)

lemma replace_ids:
  "p_id row = i \<Longrightarrow> map p_id (map (\<lambda>q. if p_id q = i then row else q) d) = map p_id d"
  by (induction d) auto

lemma replace_absent:
  "i \<notin> set (map p_id d) \<Longrightarrow> map (\<lambda>q. if p_id q = i then row else q) d = d"
  by (induction d) auto

lemma replace_names_distinct:
  "distinct (map p_id d) \<Longrightarrow> distinct (map p_name d) \<Longrightarrow>
   \<not> list_ex (\<lambda>q. p_id q \<noteq> i \<and> p_name q = p_name row) d \<Longrightarrow>
   distinct (map p_name (map (\<lambda>q. if p_id q = i then row else q) d))"
proof (induction d)
  case Nil
  then show ?case by simp
next
  case (Cons q qs)
  show ?case
  proof (cases "p_id q = i")
    case True
    with Cons.prems have "i \<notin> set (map p_id qs)" by auto
    then have same: "map (\<lambda>q. if p_id q = i then row else q) qs = qs" by (rule replace_absent)
    have "p_name row \<notin> set (map p_name qs)"
    proof
      assume "p_name row \<in> set (map p_name qs)"
      then obtain r where r: "r \<in> set qs" "p_name r = p_name row" by auto
      with \<open>i \<notin> set (map p_id qs)\<close> have "p_id r \<noteq> i" by auto
      with r Cons.prems(3) show False by (auto simp: list_ex_iff)
    qed
    with True same Cons.prems show ?thesis by simp
  next
    case False
    have ih: "distinct (map p_name (map (\<lambda>q. if p_id q = i then row else q) qs))"
      using Cons.IH Cons.prems by (simp add: list_ex_iff)
    have "p_name q \<noteq> p_name row" using False Cons.prems(3) by (auto simp: list_ex_iff)
    moreover have "p_name q \<notin> set (map p_name qs)" using Cons.prems(2) by simp
    ultimately have "p_name q \<notin> set (map p_name (map (\<lambda>q. if p_id q = i then row else q) qs))"
      by (auto split: if_splits)
    with False ih show ?thesis by simp
  qed
qed

lemma first_row_replace:
  "first_row d i = Some p \<Longrightarrow> p_id row = i \<Longrightarrow>
   first_row (map (\<lambda>q. if p_id q = i then row else q) d) i = Some row"
  unfolding first_row_def by (induction d) (auto split: if_splits)


section \<open>Validated objects\<close>

lemma strip_empty: "strip [] = []"
  by (simp add: strip_def)

lemma empty_string_not_allowed_Some:
  "empty_string_not_allowed v = Some w \<Longrightarrow> w = v \<and> (\<forall>s. v = Val s \<longrightarrow> strip s \<noteq> [])"
  by (auto simp: empty_string_not_allowed_def split: field.splits if_splits)

lemma empty_string_not_allowed_update_Some:
  "empty_string_not_allowed_update v = Some w \<Longrightarrow> w = v \<and> (\<forall>s. v = Val s \<longrightarrow> strip s \<noteq> [])"
  by (auto simp: empty_string_not_allowed_update_def split: field.splits if_splits)

lemma required_str_min1_Some: "required_str_min1 v = Some s \<Longrightarrow> v = Val s"
  by (auto simp: required_str_min1_def split: field.splits if_splits)

lemma required_float_gt0_Some: "required_float_gt0 v = Some x \<Longrightarrow> v = Val x \<and> 0 < x"
  by (auto simp: required_float_gt0_def split: field.splits if_splits)

lemma required_int_ge0_Some: "required_int_ge0 v = Some n \<Longrightarrow> v = Val n \<and> 0 \<le> n"
  by (auto simp: required_int_ge0_def split: field.splits if_splits)

lemma optional_str_Some:
  "optional_str v = Some w \<Longrightarrow> w = (case v of Val s \<Rightarrow> Some s | _ \<Rightarrow> None)"
  by (auto simp: optional_str_def split: field.splits)

lemma optional_str_min1_Some: "optional_str_min1 v = Some w \<Longrightarrow> w = v"
  by (auto simp: optional_str_min1_def split: field.splits if_splits)

lemma optional_float_gt0_Some:
  "optional_float_gt0 v = Some w \<Longrightarrow> w = v \<and> (\<forall>x. v = Val x \<longrightarrow> 0 < x)"
  by (auto simp: optional_float_gt0_def split: field.splits if_splits)

lemma optional_int_ge0_Some:
  "optional_int_ge0 v = Some w \<Longrightarrow> w = v \<and> (\<forall>n. v = Val n \<longrightarrow> 0 \<le> n)"
  by (auto simp: optional_int_ge0_def split: field.splits if_splits)

lemma validate_create_Some:
  assumes "validate_create r = Some c"
  shows "r_name r = Val (c_name c) \<and> r_price r = Val (c_price c) \<and>
         r_quantity r = Val (c_quantity c) \<and> strip (c_name c) \<noteq> [] \<and>
         0 < c_price c \<and> 0 \<le> c_quantity c \<and>
         c_description c = (case r_description r of Val s \<Rightarrow> Some s | _ \<Rightarrow> None) \<and>
         c_category c = (case r_category r of Val s \<Rightarrow> Some s | _ \<Rightarrow> None) \<and>
         (\<forall>s. r_description r = Val s \<longrightarrow> strip s \<noteq> []) \<and>
         (\<forall>s. r_category r = Val s \<longrightarrow> strip s \<noteq> [])"
proof -
  from assms obtain n0 n p q d0 d e0 e where
    n0: "empty_string_not_allowed (r_name r) = Some n0" and n: "required_str_min1 n0 = Some n"
    and p: "required_float_gt0 (r_price r) = Some p"
    and q: "required_int_ge0 (r_quantity r) = Some q"
    and d0: "empty_string_not_allowed (r_description r) = Some d0"
    and d: "optional_str d0 = Some d"
    and e0: "empty_string_not_allowed (r_category r) = Some e0"
    and e: "optional_str e0 = Some e"
    and c: "c = \<lparr>c_name = n, c_price = p, c_quantity = q, c_description = d, c_category = e\<rparr>"
    unfolding validate_create_def bind_eq_Some_conv by blast
  from empty_string_not_allowed_Some [OF n0] required_str_min1_Some [OF n]
    required_float_gt0_Some [OF p] required_int_ge0_Some [OF q]
    empty_string_not_allowed_Some [OF d0] optional_str_Some [OF d]
    empty_string_not_allowed_Some [OF e0] optional_str_Some [OF e] c
  show ?thesis by simp
qed

lemma validate_update_Some:
  assumes "validate_update r = Some u"
  shows "u_name u = r_name r \<and> u_price u = r_price r \<and> u_quantity u = r_quantity r \<and>
         u_description u = r_description r \<and> u_category u = r_category r \<and>
         (\<forall>x. r_price r = Val x \<longrightarrow> 0 < x) \<and> (\<forall>n. r_quantity r = Val n \<longrightarrow> 0 \<le> n) \<and>
         (\<forall>s. r_name r = Val s \<longrightarrow> strip s \<noteq> []) \<and>
         (\<forall>s. r_description r = Val s \<longrightarrow> strip s \<noteq> []) \<and>
         (\<forall>s. r_category r = Val s \<longrightarrow> strip s \<noteq> [])"
proof -
  from assms obtain n0 n p q d e where
    n0: "empty_string_not_allowed_update (r_name r) = Some n0"
    and n: "optional_str_min1 n0 = Some n"
    and p: "optional_float_gt0 (r_price r) = Some p"
    and q: "optional_int_ge0 (r_quantity r) = Some q"
    and d: "empty_string_not_allowed_update (r_description r) = Some d"
    and e: "empty_string_not_allowed_update (r_category r) = Some e"
    and u: "u = \<lparr>u_name = n, u_price = p, u_quantity = q, u_description = d, u_category = e\<rparr>"
    unfolding validate_update_def bind_eq_Some_conv by blast
  from empty_string_not_allowed_update_Some [OF n0] optional_str_min1_Some [OF n]
    optional_float_gt0_Some [OF p] optional_int_ge0_Some [OF q]
    empty_string_not_allowed_update_Some [OF d] empty_string_not_allowed_update_Some [OF e] u
  show ?thesis by simp
qed

section \<open>Rows the response model accepts\<close>

lemma name_accepted:
  "strip n \<noteq> [] \<Longrightarrow>
   Option.bind (empty_string_not_allowed (Val n)) required_str_min1 = Some n"
proof -
  assume a: "strip n \<noteq> []"
  then have "n \<noteq> []" using strip_empty by auto
  then have "1 \<le> length n" by (cases n) simp_all
  with a show ?thesis by (simp add: empty_string_not_allowed_def required_str_min1_def)
qed

lemma optional_accepted:
  "(\<forall>s. v = Some s \<longrightarrow> strip s \<noteq> []) \<Longrightarrow>
   Option.bind (empty_string_not_allowed (case v of None \<Rightarrow> Null | Some s \<Rightarrow> Val s))
     optional_str = Some v"
  by (cases v) (simp_all add: empty_string_not_allowed_def optional_str_def)

lemma ProductResponse_iff:
  "ProductResponse p \<longleftrightarrow>
     strip (p_name p) \<noteq> [] \<and> 0 < p_price p \<and> 0 \<le> p_quantity p \<and>
     (\<forall>s. p_description p = Some s \<longrightarrow> strip s \<noteq> []) \<and>
     (\<forall>s. p_category p = Some s \<longrightarrow> strip s \<noteq> [])"
proof
  assume "ProductResponse p"
  then obtain c where c: "validate_create (attributes p) = Some c"
    by (auto simp: ProductResponse_def split: option.splits)
  from validate_create_Some [OF c]
  have "Val (p_name p) = Val (c_name c)" "strip (c_name c) \<noteq> []"
    "Val (p_price p) = Val (c_price c)" "0 < c_price c"
    "Val (p_quantity p) = Val (c_quantity c)" "0 \<le> c_quantity c"
    "\<forall>s. r_description (attributes p) = Val s \<longrightarrow> strip s \<noteq> []"
    "\<forall>s. r_category (attributes p) = Val s \<longrightarrow> strip s \<noteq> []"
    by (simp_all add: attributes_def)
  then show "strip (p_name p) \<noteq> [] \<and> 0 < p_price p \<and> 0 \<le> p_quantity p \<and>
     (\<forall>s. p_description p = Some s \<longrightarrow> strip s \<noteq> []) \<and>
     (\<forall>s. p_category p = Some s \<longrightarrow> strip s \<noteq> [])"
    by (simp add: attributes_def)
next
  assume a: "strip (p_name p) \<noteq> [] \<and> 0 < p_price p \<and> 0 \<le> p_quantity p \<and>
     (\<forall>s. p_description p = Some s \<longrightarrow> strip s \<noteq> []) \<and>
     (\<forall>s. p_category p = Some s \<longrightarrow> strip s \<noteq> [])"
  then have "validate_create (attributes p) =
      Some \<lparr>c_name = p_name p, c_price = p_price p, c_quantity = p_quantity p,
            c_description = p_description p, c_category = p_category p\<rparr>"
    by (simp add: validate_create_def attributes_def name_accepted optional_accepted
        required_float_gt0_def required_int_ge0_def)
  then show "ProductResponse p" by (simp add: ProductResponse_def)
qed

lemma snd_response_model: "snd (response_model r) = snd r"
  by (simp add: response_model_def split: response.splits)

lemma response_model_exception [simp]:
  "response_model (HTTPException c m, d) = (HTTPException c m, d)"
  by (simp add: response_model_def)

lemma response_model_product:
  "ProductResponse p \<Longrightarrow> response_model (Ok_product p, d) = (Ok_product p, d)"
  by (simp add: response_model_def)

lemma response_model_products:
  "list_all ProductResponse ps \<Longrightarrow> response_model (Ok_products ps, d) = (Ok_products ps, d)"
  by (simp add: response_model_def)

lemma created_row_accepted:
  assumes "validate_create body = Some c"
  shows "ProductResponse \<lparr>p_id = i, p_name = c_name c, p_price = c_price c,
                           p_quantity = c_quantity c, p_description = c_description c,
                           p_category = c_category c\<rparr>"
  using validate_create_Some [OF assms]
  by (auto simp: ProductResponse_iff split: field.splits)

lemma replaced_accepted:
  assumes "ProductResponse p" and "validate_update body = Some u"
  shows "ProductResponse (replaced body p)"
proof -
  note a = assms(1) [unfolded ProductResponse_iff]
  note v = validate_update_Some [OF assms(2)]
  have "strip (p_name (replaced body p)) \<noteq> []"
    using a v by (cases "r_name body") (simp_all add: replaced_def)
  moreover have "0 < p_price (replaced body p)"
    using a v by (cases "r_price body") (simp_all add: replaced_def)
  moreover have "0 \<le> p_quantity (replaced body p)"
    using a v by (cases "r_quantity body") (simp_all add: replaced_def)
  moreover have "\<forall>s. p_description (replaced body p) = Some s \<longrightarrow> strip s \<noteq> []"
    using a v by (cases "r_description body") (simp_all add: replaced_def)
  moreover have "\<forall>s. p_category (replaced body p) = Some s \<longrightarrow> strip s \<noteq> []"
    using a v by (cases "r_category body") (simp_all add: replaced_def)
  ultimately show ?thesis by (simp add: ProductResponse_iff)
qed

section \<open>The constraints of the schema are kept\<close>

lemma query_first_found: "query_first d i = Inr (Some p) \<longleftrightarrow> int64 i \<and> first_row d i = Some p"
  by (simp add: query_first_def)

lemma query_first_stored: "query_first d i = Inr (Some p) \<Longrightarrow> p \<in> set d \<and> p_id p = i"
  by (auto simp: query_first_found dest: first_row_Some)

lemma create_product_cases:
  "create_product c d =
     (if \<not> int64 (c_quantity c)
      then (HTTPException 500 ''An error occurred while creating the product.'', d)
      else if c_name c \<in> set (map p_name d)
      then (HTTPException 400 ''Product creation failed due to duplicate name.'', d)
      else (Ok_product \<lparr>p_id = next_id d, p_name = c_name c, p_price = c_price c,
                      p_quantity = c_quantity c, p_description = c_description c,
                      p_category = c_category c\<rparr>,
            d @ [\<lparr>p_id = next_id d, p_name = c_name c, p_price = c_price c,
                      p_quantity = c_quantity c, p_description = c_description c,
                      p_category = c_category c\<rparr>]))"
  by (simp add: create_product_def commit_insert_def Let_def)

lemma create_product_store_ok: "store_ok d \<Longrightarrow> store_ok (snd (create_product c d))"
  using next_id_fresh [of d] by (auto simp: create_product_cases store_ok_def)

lemma commit_update_Inr:
  assumes "commit_update d ob = Inr (row, d')"
  shows "p_id row = o_id ob" "o_name ob = Some (p_name row)" "o_price ob = Some (p_price row)"
    "o_quantity ob = Some (p_quantity row)" "p_description row = o_description ob"
    "p_category row = o_category ob"
    "\<not> list_ex (\<lambda>q. p_id q \<noteq> o_id ob \<and> p_name q = p_name row) d"
    "d' = map (\<lambda>q. if p_id q = o_id ob then row else q) d"
    "int64 (p_quantity row)"
  using assms
  by (auto simp: commit_update_def Let_def split: option.splits if_splits)

lemma update_product_cases:
  "update_product i u d = (rsp, d') \<Longrightarrow>
     d' = d \<or> (\<exists>p row. first_row d i = Some p \<and>
                commit_update d (apply_update_data u p) = Inr (row, d') \<and> rsp = Ok_product row)"
  by (auto simp: update_product_def query_first_def
      split: option.splits sum.splits db_error.splits if_splits)

lemma update_product_store_ok:
  assumes "store_ok d" shows "store_ok (snd (update_product i u d))"
proof -
  obtain rsp d' where r: "update_product i u d = (rsp, d')" by (cases "update_product i u d")
  from update_product_cases [OF r] show ?thesis
  proof
    assume "d' = d" with r assms show ?thesis by simp
  next
    assume "\<exists>p row. first_row d i = Some p \<and>
                commit_update d (apply_update_data u p) = Inr (row, d') \<and> rsp = Ok_product row"
    then obtain p row where q: "first_row d i = Some p"
      and c: "commit_update d (apply_update_data u p) = Inr (row, d')" by blast
    note cu = commit_update_Inr [OF c]
    have "map p_id d' = map p_id d" using cu(1,8) by (simp add: replace_ids)
    moreover have "distinct (map p_name d')"
      unfolding cu(8) using assms cu(7) by (intro replace_names_distinct) (simp_all add: store_ok_def)
    ultimately show ?thesis using r assms by (simp add: store_ok_def)
  qed
qed

lemma delete_product_cases:
  "snd (delete_product i d) = d \<or> snd (delete_product i d) = filter (\<lambda>q. p_id q \<noteq> i) d"
  by (auto simp: delete_product_def commit_delete_def query_first_def dest: first_row_Some
      split: option.splits sum.splits)

lemma delete_product_store_ok: "store_ok d \<Longrightarrow> store_ok (snd (delete_product i d))"
  using delete_product_cases [of i d] by (auto simp: store_ok_def distinct_map_filter)

lemma list_products_db: "snd (list_products t d) = d"
  by (simp add: list_products_def Let_def)

lemma get_product_db: "snd (get_product i d) = d"
  by (simp add: get_product_def split: sum.splits option.splits)

lemma handle_store_ok: "store_ok d \<Longrightarrow> store_ok (snd (handle rq d))"
  by (cases rq)
     (auto simp: read_root_def get_product_db list_products_db create_product_store_ok
         update_product_store_ok delete_product_store_ok snd_response_model
         split: option.splits)

lemma run_store_ok: "store_ok d \<Longrightarrow> store_ok (run rqs d)"
  by (induction rqs arbitrary: d) (simp_all add: handle_store_ok)

lemma rows_ok_member: "rows_ok d \<Longrightarrow> p \<in> set d \<Longrightarrow> ProductResponse p"
  by (simp add: rows_ok_def list_all_iff)

lemma rows_ok_replace:
  "rows_ok d \<Longrightarrow> ProductResponse row \<Longrightarrow>
   rows_ok (map (\<lambda>q. if p_id q = i then row else q) d)"
  by (induction d) (simp_all add: rows_ok_def)

lemma Product_literal:
  "(p :: Product) = \<lparr>p_id = a, p_name = b, p_price = c, p_quantity = e,
                         p_description = f, p_category = g\<rparr> \<longleftrightarrow>
   p_id p = a \<and> p_name p = b \<and> p_price p = c \<and> p_quantity p = e \<and>
   p_description p = f \<and> p_category p = g"
  by (cases p) auto

text \<open>
  What a validated update does to a stored product: the commit fails on a quantity that
  is not a 64-bit value, on \<open>null\<close> in a column that is not nullable and on a name that
  another row has; otherwise the row becomes \<open>replaced body p\<close>.
\<close>

lemma stored_object:
  assumes "validate_update body = Some u"
  shows "o_id (apply_update_data u p) = p_id p"
    and "o_name (apply_update_data u p) =
           (if r_name body = Null then None else Some (p_name (replaced body p)))"
    and "o_price (apply_update_data u p) =
           (if r_price body = Null then None else Some (p_price (replaced body p)))"
    and "o_quantity (apply_update_data u p) =
           (if r_quantity body = Null then None else Some (p_quantity (replaced body p)))"
    and "o_description (apply_update_data u p) = p_description (replaced body p)"
    and "o_category (apply_update_data u p) = p_category (replaced body p)"
proof -
  from validate_update_Some [OF assms]
  have u: "u_name u = r_name body" "u_price u = r_price body" "u_quantity u = r_quantity body"
    "u_description u = r_description body" "u_category u = r_category body"
    by simp_all
  show "o_id (apply_update_data u p) = p_id p" by (simp add: apply_update_data_def)
  show "o_name (apply_update_data u p) =
           (if r_name body = Null then None else Some (p_name (replaced body p)))"
    by (cases "r_name body") (simp_all add: apply_update_data_def setattr_def replaced_def u)
  show "o_price (apply_update_data u p) =
           (if r_price body = Null then None else Some (p_price (replaced body p)))"
    by (cases "r_price body") (simp_all add: apply_update_data_def setattr_def replaced_def u)
  show "o_quantity (apply_update_data u p) =
           (if r_quantity body = Null then None else Some (p_quantity (replaced body p)))"
    by (cases "r_quantity body") (simp_all add: apply_update_data_def setattr_def replaced_def u)
  show "o_description (apply_update_data u p) = p_description (replaced body p)"
    by (cases "r_description body") (simp_all add: apply_update_data_def setattr_def replaced_def u)
  show "o_category (apply_update_data u p) = p_category (replaced body p)"
    by (cases "r_category body") (simp_all add: apply_update_data_def setattr_def replaced_def u)
qed

lemma update_product_validated:
  assumes "query_first d i = Inr (Some p)" and "validate_update body = Some u"
  shows "update_product i u d =
     (if r_quantity body \<noteq> Null \<and> \<not> int64 (p_quantity (replaced body p))
      then (InternalServerError, d)
      else if r_name body = Null \<or> r_price body = Null \<or> r_quantity body = Null \<or>
         list_ex (\<lambda>q. p_id q \<noteq> i \<and> p_name q = p_name (replaced body p)) d
      then (HTTPException 400 ''Update failed due to duplicate name.'', d)
      else (Ok_product (replaced body p),
            map (\<lambda>q. if p_id q = i then replaced body p else q) d))"
proof -
  from assms(1) have pid: "p_id p = i" by (simp add: query_first_stored)
  have row: "\<lparr>p_id = i, p_name = p_name (replaced body p), p_price = p_price (replaced body p),
        p_quantity = p_quantity (replaced body p),
        p_description = p_description (replaced body p),
        p_category = p_category (replaced body p)\<rparr> = replaced body p"
    using pid by (simp add: Product_literal [THEN iffD2] replaced_def)
  show ?thesis
    using assms(1) pid row
    by (simp add: update_product_def commit_update_def stored_object [OF assms(2)] Let_def)
qed

lemma post_rows_ok: "rows_ok d \<Longrightarrow> rows_ok (snd (handle (POST_products body) d))"
  by (auto simp: rows_ok_def create_product_cases snd_response_model created_row_accepted
      split: option.splits)

lemma put_db:
  assumes "validate_update body = Some u"
  shows "snd (handle (PUT_product i body) d) = d \<or>
         (\<exists>p. query_first d i = Inr (Some p) \<and>
              (r_quantity body = Null \<or> int64 (p_quantity (replaced body p))) \<and>
              snd (handle (PUT_product i body) d) =
                map (\<lambda>q. if p_id q = i then replaced body p else q) d)"
proof (cases "query_first d i")
  case (Inl e)
  with assms show ?thesis by (simp add: update_product_def snd_response_model)
next
  case (Inr r)
  show ?thesis
  proof (cases r)
    case None
    with Inr assms show ?thesis by (simp add: update_product_def snd_response_model)
  next
    case (Some p)
    with Inr have q: "query_first d i = Inr (Some p)" by simp
    show ?thesis
      using assms q
      by (simp add: update_product_validated [OF q assms] snd_response_model)
  qed
qed

lemma put_rows_ok:
  assumes "rows_ok d" shows "rows_ok (snd (handle (PUT_product i body) d))"
proof (cases "validate_update body")
  case None
  with assms show ?thesis by simp
next
  case (Some u)
  from put_db [OF Some, of i d] show ?thesis
  proof
    assume "snd (handle (PUT_product i body) d) = d"
    with assms show ?thesis by simp
  next
    assume "\<exists>p. query_first d i = Inr (Some p) \<and>
              (r_quantity body = Null \<or> int64 (p_quantity (replaced body p))) \<and>
              snd (handle (PUT_product i body) d) =
                map (\<lambda>q. if p_id q = i then replaced body p else q) d"
    then obtain p where q: "query_first d i = Inr (Some p)"
      and e: "snd (handle (PUT_product i body) d) =
                map (\<lambda>q. if p_id q = i then replaced body p else q) d" by blast
    from q have "p \<in> set d" by (simp add: query_first_stored)
    with assms have "ProductResponse p" by (rule rows_ok_member)
    then have "ProductResponse (replaced body p)" using Some by (rule replaced_accepted)
    with assms show ?thesis unfolding e by (rule rows_ok_replace)
  qed
qed

lemma delete_rows_ok: "rows_ok d \<Longrightarrow> rows_ok (snd (delete_product i d))"
  using delete_product_cases [of i d] by (auto simp: rows_ok_def list_all_iff)

lemma handle_rows_ok: "rows_ok d \<Longrightarrow> rows_ok (snd (handle rq d))"
proof (cases rq)
  case (POST_products body)
  assume "rows_ok d" then show ?thesis unfolding POST_products by (rule post_rows_ok)
next
  case (PUT_product i body)
  assume "rows_ok d" then show ?thesis unfolding PUT_product by (rule put_rows_ok)
qed (auto simp: read_root_def get_product_db list_products_db delete_rows_ok
      snd_response_model split: option.splits)

lemma run_rows_ok: "rows_ok d \<Longrightarrow> rows_ok (run rqs d)"
  by (induction rqs arbitrary: d) (simp_all add: handle_rows_ok)

text \<open>No stored quantity is outside the 64-bit range: the insert and the update bind it.\<close>

lemma post_quantities_ok:
  "quantities_ok d \<Longrightarrow> quantities_ok (snd (handle (POST_products body) d))"
  by (auto simp: quantities_ok_def create_product_cases snd_response_model
      split: option.splits)

lemma quantities_ok_replace:
  "quantities_ok d \<Longrightarrow> int64 (p_quantity row) \<Longrightarrow>
   quantities_ok (map (\<lambda>q. if p_id q = i then row else q) d)"
  by (induction d) (simp_all add: quantities_ok_def)

lemma put_quantities_ok:
  assumes "quantities_ok d" shows "quantities_ok (snd (handle (PUT_product i body) d))"
proof (cases "validate_update body")
  case None
  with assms show ?thesis by simp
next
  case (Some u)
  from put_db [OF Some, of i d] show ?thesis
  proof
    assume "snd (handle (PUT_product i body) d) = d"
    with assms show ?thesis by simp
  next
    assume "\<exists>p. query_first d i = Inr (Some p) \<and>
              (r_quantity body = Null \<or> int64 (p_quantity (replaced body p))) \<and>
              snd (handle (PUT_product i body) d) =
                map (\<lambda>q. if p_id q = i then replaced body p else q) d"
    then obtain p where q: "query_first d i = Inr (Some p)"
      and f: "r_quantity body = Null \<or> int64 (p_quantity (replaced body p))"
      and e: "snd (handle (PUT_product i body) d) =
                map (\<lambda>q. if p_id q = i then replaced body p else q) d" by blast
    from q have "p \<in> set d" by (simp add: query_first_stored)
    with assms have "int64 (p_quantity p)" by (simp add: quantities_ok_def list_all_iff)
    with f have "int64 (p_quantity (replaced body p))"
      by (cases "r_quantity body") (simp_all add: replaced_def)
    with assms show ?thesis unfolding e by (rule quantities_ok_replace)
  qed
qed

lemma delete_quantities_ok: "quantities_ok d \<Longrightarrow> quantities_ok (snd (delete_product i d))"
  using delete_product_cases [of i d] by (auto simp: quantities_ok_def list_all_iff)

lemma handle_quantities_ok: "quantities_ok d \<Longrightarrow> quantities_ok (snd (handle rq d))"
proof (cases rq)
  case (POST_products body)
  assume "quantities_ok d"
  then show ?thesis unfolding POST_products by (rule post_quantities_ok)
next
  case (PUT_product i body)
  assume "quantities_ok d"
  then show ?thesis unfolding PUT_product by (rule put_quantities_ok)
qed (auto simp: read_root_def get_product_db list_products_db delete_quantities_ok
      snd_response_model split: option.splits)

lemma run_quantities_ok: "quantities_ok d \<Longrightarrow> quantities_ok (run rqs d)"
  by (induction rqs arbitrary: d) (simp_all add: handle_quantities_ok)

text \<open>Every database that requests can produce satisfies the invariants.\<close>

lemma run_invariants:
  "store_ok (run rqs []) \<and> rows_ok (run rqs []) \<and> quantities_ok (run rqs [])"
proof (intro conjI)
  have "store_ok []" by (simp add: store_ok_def)
  then show "store_ok (run rqs [])" by (rule run_store_ok)
  have "rows_ok []" by (simp add: rows_ok_def)
  then show "rows_ok (run rqs [])" by (rule run_rows_ok)
  have "quantities_ok []" by (simp add: quantities_ok_def)
  then show "quantities_ok (run rqs [])" by (rule run_quantities_ok)
qed

section \<open>Unique names\<close>





section \<open>Updates\<close>

lemma no_other_same_name:
  assumes "store_ok d" and "p \<in> set d" and "p_id p = i"
  shows "\<not> list_ex (\<lambda>q. p_id q \<noteq> i \<and> p_name q = p_name p) d"
proof
  assume "list_ex (\<lambda>q. p_id q \<noteq> i \<and> p_name q = p_name p) d"
  then obtain q where q: "q \<in> set d" "p_id q \<noteq> i" "p_name q = p_name p"
    by (auto simp: list_ex_iff)
  from assms(1) have "inj_on p_name (set d)" by (simp add: store_ok_def distinct_map)
  with q(1,3) assms(2) have "q = p" by (auto dest: inj_onD)
  with q(2) assms(3) show False by simp
qed

lemma stored_quantity_fits:
  "quantities_ok d \<Longrightarrow> p \<in> set d \<Longrightarrow> int64 (p_quantity p)"
  by (simp add: quantities_ok_def list_all_iff)


lemma query_first_replace:
  "query_first d i = Inr (Some p) \<Longrightarrow> p_id row = i \<Longrightarrow>
   query_first (map (\<lambda>q. if p_id q = i then row else q) d) i = Inr (Some row)"
  by (simp add: query_first_def first_row_replace split: if_splits)









section \<open>Not found\<close>

text \<open>
  C4, as stated, fails: the id \<open>2 ^ 63\<close> matches no stored product, and GET, PUT and
  DELETE on it end in a server error, not in the answer 404, because the id cannot be
  bound as a parameter of the lookup; and a PUT on the missing id 1 with the body
  \<open>{"price": -1}\<close> is answered 422.
\<close>

theorem not_found_symmetry_counterexample:
  "first_row [widget] (2 ^ 63) = None \<and>
   handle (GET_product (2 ^ 63)) [widget] = (InternalServerError, [widget]) \<and>
   handle (PUT_product (2 ^ 63) \<lparr>r_name = Unset, r_price = Unset, r_quantity = Unset,
                                 r_description = Unset, r_category = Unset\<rparr>) [widget] =
     (InternalServerError, [widget]) \<and>
   handle (DELETE_product (2 ^ 63)) [widget] = (InternalServerError, [widget]) \<and>
   handle (PUT_product 2 \<lparr>r_name = Unset, r_price = Val (- 1), r_quantity = Unset,
                          r_description = Unset, r_category = Unset\<rparr>) [widget] =
     (RequestValidationError, [widget])"
  by (simp add: validation_defs handler_defs)

text \<open>
  C4, amended. When the id is a signed 64-bit value and no stored product has it, the
  handlers of GET, PUT and DELETE on that id each raise the same \<open>HTTPException\<close>, status
  404 with the detail \<open>Product not found\<close>, and each returns the database it was given.
  So do the three requests, the PUT with a body that passes validation.
\<close>

theorem not_found_symmetry:
  assumes "int64 i" and "\<forall>p\<in>set d. p_id p \<noteq> i"
  shows "get_product i d = (HTTPException 404 ''Product not found'', d) \<and>
         update_product i u d = (HTTPException 404 ''Product not found'', d) \<and>
         delete_product i d = (HTTPException 404 ''Product not found'', d) \<and>
         handle (GET_product i) d = (HTTPException 404 ''Product not found'', d) \<and>
         (validate_update body = Some u \<longrightarrow>
            handle (PUT_product i body) d = (HTTPException 404 ''Product not found'', d)) \<and>
         handle (DELETE_product i) d = (HTTPException 404 ''Product not found'', d)"
proof -
  from assms(2) have "first_row d i = None" by (auto simp: first_row_None)
  with assms(1) have "query_first d i = Inr None" by (simp add: query_first_def)
  then show ?thesis
    by (simp add: get_product_def update_product_def delete_product_def
        response_model_exception)
qed

theorem not_found_symmetry_witness:
  "int64 9999 \<and> p_id widget \<noteq> 9999 \<and> p_id gadget \<noteq> 9999 \<and>
   handle (GET_product 9999) [widget, gadget] =
     (HTTPException 404 ''Product not found'', [widget, gadget]) \<and>
   validate_update \<lparr>r_name = Unset, r_price = Val 80, r_quantity = Val 25,
                     r_description = Unset, r_category = Unset\<rparr> =
     Some \<lparr>u_name = Unset, u_price = Val 80, u_quantity = Val 25,
           u_description = Unset, u_category = Unset\<rparr> \<and>
   handle (PUT_product 9999 \<lparr>r_name = Unset, r_price = Val 80, r_quantity = Val 25,
                             r_description = Unset, r_category = Unset\<rparr>) [widget, gadget] =
     (HTTPException 404 ''Product not found'', [widget, gadget]) \<and>
   handle (DELETE_product 9999) [widget, gadget] =
     (HTTPException 404 ''Product not found'', [widget, gadget])"
proof -
  have f: "int64 9999" by (simp add: int64_def)
  have a: "\<forall>p\<in>set [widget, gadget]. p_id p \<noteq> 9999" by simp
  have v: "validate_update \<lparr>r_name = Unset, r_price = Val 80, r_quantity = Val 25,
                     r_description = Unset, r_category = Unset\<rparr> =
     Some \<lparr>u_name = Unset, u_price = Val 80, u_quantity = Val 25,
           u_description = Unset, u_category = Unset\<rparr>"
    by (simp add: validation_defs)
  from not_found_symmetry [OF f a, of "\<lparr>u_name = Unset, u_price = Val 80, u_quantity = Val 25,
           u_description = Unset, u_category = Unset\<rparr>"
       "\<lparr>r_name = Unset, r_price = Val 80, r_quantity = Val 25,
                     r_description = Unset, r_category = Unset\<rparr>"] v f
  show ?thesis by (simp del: handle.simps)
qed

section \<open>Listing\<close>

text \<open>
  C5, as stated, fails for a negative threshold: \<open>price_gte\<close> is declared
  \<open>Query(None, ge=0)\<close>, so \<open>GET /products/?price_gte=-1\<close> is answered 422 and returns no
  products, although every stored product has a price of at least -1.
\<close>

theorem list_filter_counterexample:
  "handle (GET_products (Some (- 1))) [widget, gadget] =
     (RequestValidationError, [widget, gadget])"
  by simp

text \<open>
  C5, amended. For every threshold \<open>t\<close> that is not negative and every database that a
  sequence of requests has produced, the request returns the
  stored products whose price is at least \<open>t\<close>, all of them and no other, in stored
  order; when none qualifies the answer is the empty list. Without \<open>price_gte\<close> all stored
  products are returned. The database is unchanged.
\<close>

theorem list_filter:
  assumes "run rqs [] = d"
  shows "(0 \<le> t \<longrightarrow>
      handle (GET_products (Some t)) d = (Ok_products (filter (\<lambda>p. t \<le> p_price p) d), d) \<and>
      set (filter (\<lambda>p. t \<le> p_price p) d) = {p \<in> set d. t \<le> p_price p} \<and>
      ((\<forall>p\<in>set d. p_price p < t) \<longrightarrow>
         handle (GET_products (Some t)) d = (Ok_products [], d))) \<and>
   handle (GET_products None) d = (Ok_products d, d)"
proof -
  have none: "(\<forall>p\<in>set d. p_price p < t) \<Longrightarrow> filter (\<lambda>p. t \<le> p_price p) d = []"
    by (auto simp: filter_empty_conv)
  have "rows_ok d" using run_invariants [of rqs] by (simp add: assms)
  then have all: "list_all ProductResponse d" by (simp add: rows_ok_def)
  then have some: "list_all ProductResponse (filter (\<lambda>p. t \<le> p_price p) d)"
    by (simp add: list_all_iff)
  have l: "list_products (Some t) d = (Ok_products (filter (\<lambda>p. t \<le> p_price p) d), d)"
    by (simp add: list_products_def Let_def)
  have n: "list_products None d = (Ok_products d, d)"
    by (simp add: list_products_def Let_def)
  show ?thesis
    using all some by (auto simp: l n none response_model_products)
qed

theorem list_filter_witness:
  "run two_creates [] = [widget, gadget] \<and> (0::real) \<le> 15 \<and>
   handle (GET_products (Some 15)) [widget, gadget] = (Ok_products [gadget], [widget, gadget]) \<and>
   p_price widget < 25 \<and> p_price gadget < 25 \<and>
   handle (GET_products (Some 25)) [widget, gadget] = (Ok_products [], [widget, gadget]) \<and>
   handle (GET_products None) [widget, gadget] = (Ok_products [widget, gadget], [widget, gadget])"
proof -
  have r: "run two_creates [] = [widget, gadget]"
    by (simp add: validation_defs handler_defs)
  have a: "(0::real) \<le> 15" by simp
  have b: "\<forall>p\<in>set [widget, gadget]. p_price p < 25" by simp
  from list_filter [OF r, of 15] a
  have c: "handle (GET_products (Some 15)) [widget, gadget] =
      (Ok_products [gadget], [widget, gadget])" by (simp del: handle.simps)
  from list_filter [OF r, of 25] b
  have e: "handle (GET_products (Some 25)) [widget, gadget] =
      (Ok_products [], [widget, gadget])" by (simp del: handle.simps)
  from list_filter [OF r, of 15]
  have f: "handle (GET_products None) [widget, gadget] =
      (Ok_products [widget, gadget], [widget, gadget])" by blast
  from r a c e f show ?thesis by (simp del: handle.simps run.simps)
qed

section \<open>Validation comes before the handler\<close>

text \<open>
  C6, as stated, fails: on the empty database a PUT on id 1 with the body
  \<open>{"price": -1}\<close> is answered 422, not 404. The body is validated when the handler's
  parameter \<open>product: ProductUpdate\<close> is built, before the lookup in the handler's body.
  And a PUT on the id \<open>2 ^ 63\<close> with the body \<open>{}\<close> ends in a server error, not in the
  answer 404, because the id cannot be bound as a parameter of the lookup.
\<close>

theorem put_order_counterexample:
  "query_first [] 1 = Inr None \<and>
   validate_update \<lparr>r_name = Unset, r_price = Val (- 1), r_quantity = Unset,
                     r_description = Unset, r_category = Unset\<rparr> = None \<and>
   handle (PUT_product 1 \<lparr>r_name = Unset, r_price = Val (- 1), r_quantity = Unset,
                          r_description = Unset, r_category = Unset\<rparr>) [] =
     (RequestValidationError, []) \<and>
   first_row [] (2 ^ 63) = None \<and>
   validate_update \<lparr>r_name = Unset, r_price = Unset, r_quantity = Unset,
                     r_description = Unset, r_category = Unset\<rparr> =
     Some \<lparr>u_name = Unset, u_price = Unset, u_quantity = Unset,
           u_description = Unset, u_category = Unset\<rparr> \<and>
   handle (PUT_product (2 ^ 63) \<lparr>r_name = Unset, r_price = Unset, r_quantity = Unset,
                                 r_description = Unset, r_category = Unset\<rparr>) [] =
     (InternalServerError, [])"
  by (simp add: validation_defs handler_defs)

text \<open>
  C6, amended. A PUT whose body fails validation is answered 422 whether or not the id
  matches a stored product; a PUT whose body passes validation and whose id is a signed
  64-bit value that matches no stored product is answered 404 with the detail
  \<open>Product not found\<close>. The database is unchanged in both cases.
\<close>

theorem put_order:
  "(validate_update body = None \<longrightarrow>
      handle (PUT_product i body) d = (RequestValidationError, d)) \<and>
   (validate_update body \<noteq> None \<and> int64 i \<and> (\<forall>p\<in>set d. p_id p \<noteq> i) \<longrightarrow>
      handle (PUT_product i body) d = (HTTPException 404 ''Product not found'', d))"
proof (intro conjI impI)
  assume "validate_update body = None"
  then show "handle (PUT_product i body) d = (RequestValidationError, d)" by simp
next
  assume a: "validate_update body \<noteq> None \<and> int64 i \<and> (\<forall>p\<in>set d. p_id p \<noteq> i)"
  then have "first_row d i = None" by (auto simp: first_row_None)
  with a have "query_first d i = Inr None" by (simp add: query_first_def)
  with a show "handle (PUT_product i body) d = (HTTPException 404 ''Product not found'', d)"
    by (auto simp: update_product_def response_model_exception)
qed

theorem put_order_witness:
  "validate_update \<lparr>r_name = Val '' '', r_price = Unset, r_quantity = Unset,
                     r_description = Unset, r_category = Unset\<rparr> = None \<and>
   handle (PUT_product 1 \<lparr>r_name = Val '' '', r_price = Unset, r_quantity = Unset,
                          r_description = Unset, r_category = Unset\<rparr>) [widget] =
     (RequestValidationError, [widget]) \<and>
   validate_update \<lparr>r_name = Unset, r_price = Val 3, r_quantity = Unset,
                     r_description = Unset, r_category = Unset\<rparr> \<noteq> None \<and>
   int64 2 \<and> p_id widget \<noteq> 2 \<and>
   handle (PUT_product 2 \<lparr>r_name = Unset, r_price = Val 3, r_quantity = Unset,
                          r_description = Unset, r_category = Unset\<rparr>) [widget] =
     (HTTPException 404 ''Product not found'', [widget])"
proof -
  have a: "validate_update \<lparr>r_name = Val '' '', r_price = Unset, r_quantity = Unset,
                     r_description = Unset, r_category = Unset\<rparr> = None"
    by (simp add: validation_defs)
  have b: "validate_update \<lparr>r_name = Unset, r_price = Val 3, r_quantity = Unset,
                     r_description = Unset, r_category = Unset\<rparr> \<noteq> None"
    by (simp add: validation_defs)
  have c: "int64 2" by (simp add: int64_def)
  have e: "\<forall>p\<in>set [widget]. p_id p \<noteq> 2" by simp
  from put_order [of "\<lparr>r_name = Val '' '', r_price = Unset, r_quantity = Unset,
                     r_description = Unset, r_category = Unset\<rparr>" 1 "[widget]"] a
  have f: "handle (PUT_product 1 \<lparr>r_name = Val '' '', r_price = Unset, r_quantity = Unset,
                          r_description = Unset, r_category = Unset\<rparr>) [widget] =
     (RequestValidationError, [widget])" by blast
  from put_order [of "\<lparr>r_name = Unset, r_price = Val 3, r_quantity = Unset,
                     r_description = Unset, r_category = Unset\<rparr>" 2 "[widget]"] b c e
  have g: "handle (PUT_product 2 \<lparr>r_name = Unset, r_price = Val 3, r_quantity = Unset,
                          r_description = Unset, r_category = Unset\<rparr>) [widget] =
     (HTTPException 404 ''Product not found'', [widget])" by blast
  from a b c f g show ?thesis by (simp del: handle.simps)
qed

section \<open>Rejected values\<close>

lemma blank_create_rejected:
  assumes "strip v = []"
    and "r_name body = Val v \<or> r_description body = Val v \<or> r_category body = Val v"
  shows "validate_create body = None"
proof -
  have e: "empty_string_not_allowed (Val v) = None"
    using assms(1) by (simp add: empty_string_not_allowed_def)
  from assms(2) show ?thesis
  proof (elim disjE)
    assume "r_name body = Val v"
    with e show ?thesis by (simp add: validate_create_def)
  next
    assume "r_description body = Val v"
    with e show ?thesis by (simp add: validate_create_def Option.bind_eq_None_conv)
  next
    assume "r_category body = Val v"
    with e show ?thesis by (simp add: validate_create_def Option.bind_eq_None_conv)
  qed
qed

lemma blank_update_rejected:
  assumes "strip v = []"
    and "r_name body = Val v \<or> r_description body = Val v \<or> r_category body = Val v"
  shows "validate_update body = None"
proof -
  have e: "empty_string_not_allowed_update (Val v) = None"
    using assms(1) by (simp add: empty_string_not_allowed_update_def)
  from assms(2) show ?thesis
  proof (elim disjE)
    assume "r_name body = Val v"
    with e show ?thesis by (simp add: validate_update_def)
  next
    assume "r_description body = Val v"
    with e show ?thesis by (simp add: validate_update_def Option.bind_eq_None_conv)
  next
    assume "r_category body = Val v"
    with e show ?thesis by (simp add: validate_update_def Option.bind_eq_None_conv)
  qed
qed

lemma bad_price_rejected:
  assumes "r_price body = Val x" and "x \<le> 0"
  shows "validate_create body = None \<and> validate_update body = None"
proof -
  have "required_float_gt0 (Val x) = None" "optional_float_gt0 (Val x) = None"
    using assms(2) by (simp_all add: required_float_gt0_def optional_float_gt0_def)
  with assms(1) show ?thesis
    by (simp add: validate_create_def validate_update_def Option.bind_eq_None_conv)
qed

lemma bad_quantity_rejected:
  assumes "r_quantity body = Val k" and "k < 0"
  shows "validate_create body = None \<and> validate_update body = None"
proof -
  have "required_int_ge0 (Val k) = None" "optional_int_ge0 (Val k) = None"
    using assms(2) by (simp_all add: required_int_ge0_def optional_int_ge0_def)
  with assms(1) show ?thesis
    by (simp add: validate_create_def validate_update_def Option.bind_eq_None_conv)
qed

text \<open>
  C7. After any sequence of requests served from the empty database, every stored
  product has a positive price and a quantity that is not negative. A create or an update
  whose body gives a price that is not positive, or a negative quantity, is answered 422
  and the database is unchanged.
\<close>

theorem stored_price_quantity:
  "(\<forall>p\<in>set (run rqs []). 0 < p_price p \<and> 0 \<le> p_quantity p) \<and>
   (r_price body = Val x \<and> x \<le> 0 \<or> r_quantity body = Val k \<and> k < 0 \<longrightarrow>
      handle (POST_products body) d = (RequestValidationError, d) \<and>
      handle (PUT_product i body) d = (RequestValidationError, d))"
proof (intro conjI impI)
  have "rows_ok []" by (simp add: rows_ok_def)
  then have "rows_ok (run rqs [])" by (rule run_rows_ok)
  then show "\<forall>p\<in>set (run rqs []). 0 < p_price p \<and> 0 \<le> p_quantity p"
    by (simp add: rows_ok_def list_all_iff ProductResponse_iff)
next
  assume "r_price body = Val x \<and> x \<le> 0 \<or> r_quantity body = Val k \<and> k < 0"
  then have v: "validate_create body = None \<and> validate_update body = None"
    using bad_price_rejected [of body x] bad_quantity_rejected [of body k] by blast
  from v show "handle (POST_products body) d = (RequestValidationError, d)" by simp
  from v show "handle (PUT_product i body) d = (RequestValidationError, d)" by simp
qed

theorem stored_price_quantity_witness:
  "run [POST_products widget_body,
        PUT_product 1 \<lparr>r_name = Unset, r_price = Val 0, r_quantity = Unset,
                       r_description = Unset, r_category = Unset\<rparr>,
        PUT_product 1 \<lparr>r_name = Unset, r_price = Val 12, r_quantity = Val 0,
                       r_description = Unset, r_category = Unset\<rparr>] [] =
     [\<lparr>p_id = 1, p_name = ''Widget'', p_price = 12, p_quantity = 0,
       p_description = None, p_category = None\<rparr>] \<and>
   0 < p_price \<lparr>p_id = 1, p_name = ''Widget'', p_price = 12, p_quantity = 0,
       p_description = None, p_category = None\<rparr> \<and>
   0 \<le> p_quantity \<lparr>p_id = 1, p_name = ''Widget'', p_price = 12, p_quantity = 0,
       p_description = None, p_category = None\<rparr> \<and>
   handle (POST_products \<lparr>r_name = Val ''Gadget'', r_price = Val (- 1), r_quantity = Val 5,
                          r_description = Unset, r_category = Unset\<rparr>) [widget] =
     (RequestValidationError, [widget]) \<and>
   handle (PUT_product 1 \<lparr>r_name = Unset, r_price = Unset, r_quantity = Val (- 2),
                          r_description = Unset, r_category = Unset\<rparr>) [widget] =
     (RequestValidationError, [widget])"
proof -
  let ?rqs = "[POST_products widget_body,
        PUT_product 1 \<lparr>r_name = Unset, r_price = Val 0, r_quantity = Unset,
                       r_description = Unset, r_category = Unset\<rparr>,
        PUT_product 1 \<lparr>r_name = Unset, r_price = Val 12, r_quantity = Val 0,
                       r_description = Unset, r_category = Unset\<rparr>]"
  have r: "run ?rqs [] = [\<lparr>p_id = 1, p_name = ''Widget'', p_price = 12, p_quantity = 0,
       p_description = None, p_category = None\<rparr>]"
    by (simp add: validation_defs handler_defs)
  from stored_price_quantity [of ?rqs]
  have a: "\<forall>p\<in>set (run ?rqs []). 0 < p_price p \<and> 0 \<le> p_quantity p" by blast
  from stored_price_quantity [of "[]" "\<lparr>r_name = Val ''Gadget'', r_price = Val (- 1),
      r_quantity = Val 5, r_description = Unset, r_category = Unset\<rparr>" "- 1" 0 "[widget]" 1]
  have b: "handle (POST_products \<lparr>r_name = Val ''Gadget'', r_price = Val (- 1), r_quantity = Val 5,
                          r_description = Unset, r_category = Unset\<rparr>) [widget] =
     (RequestValidationError, [widget])" by simp
  from stored_price_quantity [of "[]" "\<lparr>r_name = Unset, r_price = Unset, r_quantity = Val (- 2),
                          r_description = Unset, r_category = Unset\<rparr>" 0 "- 2" "[widget]" 1]
  have c: "handle (PUT_product 1 \<lparr>r_name = Unset, r_price = Unset, r_quantity = Val (- 2),
                          r_description = Unset, r_category = Unset\<rparr>) [widget] =
     (RequestValidationError, [widget])" by simp
  from a [unfolded r] r b c show ?thesis by simp
qed

text \<open>
  C8. A string that \<open>strip\<close> leaves empty, given for \<open>name\<close>, \<open>description\<close> or \<open>category\<close>,
  makes a create and an update fail validation: the request is answered 422 and the
  database is unchanged. By \<open>strip_Nil_iff\<close> such a string is one that consists of
  whitespace only, the empty string among them.
\<close>

theorem blank_string_rejected:
  assumes "strip v = []"
    and "r_name body = Val v \<or> r_description body = Val v \<or> r_category body = Val v"
  shows "validate_create body = None \<and> validate_update body = None \<and>
         handle (POST_products body) d = (RequestValidationError, d) \<and>
         handle (PUT_product i body) d = (RequestValidationError, d)"
  using blank_create_rejected [OF assms] blank_update_rejected [OF assms]
  by simp

theorem blank_string_rejected_witness:
  "strip [CHR '' '', CHR 0x09, CHR 0x0A] = [] \<and>
   handle (POST_products \<lparr>r_name = Val ''Widget'', r_price = Val 10, r_quantity = Val 5,
        r_description = Val [CHR '' '', CHR 0x09, CHR 0x0A], r_category = Unset\<rparr>) [] =
     (RequestValidationError, []) \<and>
   handle (PUT_product 1 \<lparr>r_name = Unset, r_price = Unset, r_quantity = Unset,
        r_description = Unset, r_category = Val [CHR '' '', CHR 0x09, CHR 0x0A]\<rparr>) [widget] =
     (RequestValidationError, [widget])"
proof -
  have s: "strip [CHR '' '', CHR 0x09, CHR 0x0A] = []" by (simp add: strip_def isspace_def)
  from blank_string_rejected [OF s, of "\<lparr>r_name = Val ''Widget'', r_price = Val 10,
        r_quantity = Val 5, r_description = Val [CHR '' '', CHR 0x09, CHR 0x0A],
        r_category = Unset\<rparr>" "[]" 1]
  have a: "handle (POST_products \<lparr>r_name = Val ''Widget'', r_price = Val 10, r_quantity = Val 5,
        r_description = Val [CHR '' '', CHR 0x09, CHR 0x0A], r_category = Unset\<rparr>) [] =
     (RequestValidationError, [])" by simp
  from blank_string_rejected [OF s, of "\<lparr>r_name = Unset, r_price = Unset, r_quantity = Unset,
        r_description = Unset, r_category = Val [CHR '' '', CHR 0x09, CHR 0x0A]\<rparr>" "[widget]" 1]
  have b: "handle (PUT_product 1 \<lparr>r_name = Unset, r_price = Unset, r_quantity = Unset,
        r_description = Unset, r_category = Val [CHR '' '', CHR 0x09, CHR 0x0A]\<rparr>) [widget] =
     (RequestValidationError, [widget])" by simp
  from s a b show ?thesis by blast
qed

section \<open>Null and empty bodies on update\<close>

lemma replace_found_row:
  assumes "store_ok d" and "query_first d i = Inr (Some p)"
  shows "map (\<lambda>q. if p_id q = i then p else q) d = d"
proof -
  from assms(2) have "p \<in> set d" "p_id p = i" by (simp_all add: query_first_stored)
  moreover from assms(1) have "distinct (map p_id d)" by (simp add: store_ok_def)
  ultimately show ?thesis using replace_same_row [of d p] by simp
qed

text \<open>
  C9. On update, \<open>null\<close> for \<open>description\<close> passes the validator (which only tests
  strings) and the field declaration, and counts as a set field: in the database that a
  sequence of requests has produced, the PUT of \<open>{"description": null}\<close> on a stored
  product succeeds, returns the record with its description cleared and every other field
  as before, and stores it. The same holds for \<open>category\<close>.
\<close>

theorem update_null_clears:
  assumes "run rqs [] = d" and "query_first d i = Inr (Some p)"
  shows "empty_string_not_allowed_update Null = Some Null \<and>
         validate_update (empty_body\<lparr>r_description := Null\<rparr>) =
           Some \<lparr>u_name = Unset, u_price = Unset, u_quantity = Unset,
                 u_description = Null, u_category = Unset\<rparr> \<and>
         handle (PUT_product i (empty_body\<lparr>r_description := Null\<rparr>)) d =
           (Ok_product (p\<lparr>p_description := None\<rparr>),
            map (\<lambda>q. if p_id q = i then p\<lparr>p_description := None\<rparr> else q) d) \<and>
         query_first (snd (handle (PUT_product i (empty_body\<lparr>r_description := Null\<rparr>)) d)) i =
           Inr (Some (p\<lparr>p_description := None\<rparr>)) \<and>
         validate_update (empty_body\<lparr>r_category := Null\<rparr>) =
           Some \<lparr>u_name = Unset, u_price = Unset, u_quantity = Unset,
                 u_description = Unset, u_category = Null\<rparr> \<and>
         handle (PUT_product i (empty_body\<lparr>r_category := Null\<rparr>)) d =
           (Ok_product (p\<lparr>p_category := None\<rparr>),
            map (\<lambda>q. if p_id q = i then p\<lparr>p_category := None\<rparr> else q) d) \<and>
         query_first (snd (handle (PUT_product i (empty_body\<lparr>r_category := Null\<rparr>)) d)) i =
           Inr (Some (p\<lparr>p_category := None\<rparr>))"
proof -
  from run_invariants [of rqs]
  have ok: "store_ok d" "rows_ok d" "quantities_ok d" by (simp_all add: assms(1))
  from assms(2) have st: "p \<in> set d" "p_id p = i" by (simp_all add: query_first_stored)
  note pid = st(2)
  note free = no_other_same_name [OF ok(1) st]
  from ok(3) st(1) have fit: "int64 (p_quantity p)" by (rule stored_quantity_fits)
  from ok(2) st(1) have acc: "ProductResponse p" by (rule rows_ok_member)
  have e: "empty_string_not_allowed_update Null = Some Null"
    by (simp add: empty_string_not_allowed_update_def)
  have vd: "validate_update (empty_body\<lparr>r_description := Null\<rparr>) =
           Some \<lparr>u_name = Unset, u_price = Unset, u_quantity = Unset,
                 u_description = Null, u_category = Unset\<rparr>"
    by (simp add: validation_defs empty_body_def)
  have vc: "validate_update (empty_body\<lparr>r_category := Null\<rparr>) =
           Some \<lparr>u_name = Unset, u_price = Unset, u_quantity = Unset,
                 u_description = Unset, u_category = Null\<rparr>"
    by (simp add: validation_defs empty_body_def)
  have rd: "replaced (empty_body\<lparr>r_description := Null\<rparr>) p = p\<lparr>p_description := None\<rparr>"
    by (cases p) (simp add: replaced_def empty_body_def)
  have rc: "replaced (empty_body\<lparr>r_category := Null\<rparr>) p = p\<lparr>p_category := None\<rparr>"
    by (cases p) (simp add: replaced_def empty_body_def)
  have ad: "ProductResponse (p\<lparr>p_description := None\<rparr>)"
    using acc by (simp add: ProductResponse_iff)
  have ac: "ProductResponse (p\<lparr>p_category := None\<rparr>)"
    using acc by (simp add: ProductResponse_iff)
  have ud: "update_product i \<lparr>u_name = Unset, u_price = Unset, u_quantity = Unset,
                 u_description = Null, u_category = Unset\<rparr> d =
      (Ok_product (p\<lparr>p_description := None\<rparr>),
       map (\<lambda>q. if p_id q = i then p\<lparr>p_description := None\<rparr> else q) d)"
    using free fit
    by (simp add: update_product_validated [OF assms(2) vd] rd) (simp add: empty_body_def)
  have uc: "update_product i \<lparr>u_name = Unset, u_price = Unset, u_quantity = Unset,
                 u_description = Unset, u_category = Null\<rparr> d =
      (Ok_product (p\<lparr>p_category := None\<rparr>),
       map (\<lambda>q. if p_id q = i then p\<lparr>p_category := None\<rparr> else q) d)"
    using free fit
    by (simp add: update_product_validated [OF assms(2) vc] rc) (simp add: empty_body_def)
  have hd: "handle (PUT_product i (empty_body\<lparr>r_description := Null\<rparr>)) d =
      (Ok_product (p\<lparr>p_description := None\<rparr>),
       map (\<lambda>q. if p_id q = i then p\<lparr>p_description := None\<rparr> else q) d)"
    using vd ud ad by (simp add: response_model_product)
  have hc: "handle (PUT_product i (empty_body\<lparr>r_category := Null\<rparr>)) d =
      (Ok_product (p\<lparr>p_category := None\<rparr>),
       map (\<lambda>q. if p_id q = i then p\<lparr>p_category := None\<rparr> else q) d)"
    using vc uc ac by (simp add: response_model_product)
  have qd: "query_first (snd (handle (PUT_product i (empty_body\<lparr>r_description := Null\<rparr>)) d)) i =
           Inr (Some (p\<lparr>p_description := None\<rparr>))"
    unfolding hd using assms(2) by (simp add: query_first_replace pid)
  have qc: "query_first (snd (handle (PUT_product i (empty_body\<lparr>r_category := Null\<rparr>)) d)) i =
           Inr (Some (p\<lparr>p_category := None\<rparr>))"
    unfolding hc using assms(2) by (simp add: query_first_replace pid)
  from e vd vc hd hc qd qc show ?thesis by blast
qed

theorem update_null_clears_witness:
  "run two_creates [] = [widget, gadget] \<and>
   query_first [widget, gadget] 2 = Inr (Some gadget) \<and>
   handle (PUT_product 2 \<lparr>r_name = Unset, r_price = Unset, r_quantity = Unset,
                          r_description = Null, r_category = Unset\<rparr>) [widget, gadget] =
     (Ok_product \<lparr>p_id = 2, p_name = ''Gadget'', p_price = 20, p_quantity = 3,
                  p_description = None, p_category = Some ''Tools''\<rparr>,
      [widget, \<lparr>p_id = 2, p_name = ''Gadget'', p_price = 20, p_quantity = 3,
                p_description = None, p_category = Some ''Tools''\<rparr>]) \<and>
   handle (PUT_product 2 \<lparr>r_name = Unset, r_price = Unset, r_quantity = Unset,
                          r_description = Unset, r_category = Null\<rparr>) [widget, gadget] =
     (Ok_product \<lparr>p_id = 2, p_name = ''Gadget'', p_price = 20, p_quantity = 3,
                  p_description = Some ''A gadget'', p_category = None\<rparr>,
      [widget, \<lparr>p_id = 2, p_name = ''Gadget'', p_price = 20, p_quantity = 3,
                p_description = Some ''A gadget'', p_category = None\<rparr>])"
proof -
  have r: "run two_creates [] = [widget, gadget]"
    by (simp add: validation_defs handler_defs)
  have q: "query_first [widget, gadget] 2 = Inr (Some gadget)"
    by (simp add: query_first_def first_row_def int64_def)
  from update_null_clears [OF r q]
  have a: "handle (PUT_product 2 (empty_body\<lparr>r_description := Null\<rparr>)) [widget, gadget] =
      (Ok_product (gadget\<lparr>p_description := None\<rparr>),
       map (\<lambda>q. if p_id q = 2 then gadget\<lparr>p_description := None\<rparr> else q) [widget, gadget])"
    by blast
  from update_null_clears [OF r q]
  have b: "handle (PUT_product 2 (empty_body\<lparr>r_category := Null\<rparr>)) [widget, gadget] =
      (Ok_product (gadget\<lparr>p_category := None\<rparr>),
       map (\<lambda>q. if p_id q = 2 then gadget\<lparr>p_category := None\<rparr> else q) [widget, gadget])"
    by blast
  from a b r q show ?thesis by (simp add: empty_body_def del: handle.simps run.simps)
qed

text \<open>
  C10. In the database that a sequence of requests has produced, a PUT with the body
  \<open>{}\<close> on a stored product succeeds: it returns the stored record, and the database
  after the request is the database before it.
\<close>

theorem update_empty_body:
  assumes "run rqs [] = d" and "query_first d i = Inr (Some p)"
  shows "validate_update empty_body =
           Some \<lparr>u_name = Unset, u_price = Unset, u_quantity = Unset,
                 u_description = Unset, u_category = Unset\<rparr> \<and>
         handle (PUT_product i empty_body) d = (Ok_product p, d)"
proof -
  from run_invariants [of rqs]
  have ok: "store_ok d" "rows_ok d" "quantities_ok d" by (simp_all add: assms(1))
  from assms(2) have st: "p \<in> set d" "p_id p = i" by (simp_all add: query_first_stored)
  from ok(3) st(1) have fit: "int64 (p_quantity p)" by (rule stored_quantity_fits)
  from ok(2) st(1) have acc: "ProductResponse p" by (rule rows_ok_member)
  have v: "validate_update empty_body =
           Some \<lparr>u_name = Unset, u_price = Unset, u_quantity = Unset,
                 u_description = Unset, u_category = Unset\<rparr>"
    by (simp add: validation_defs empty_body_def)
  have r: "replaced empty_body p = p"
    by (cases p) (simp add: replaced_def empty_body_def)
  have "update_product i \<lparr>u_name = Unset, u_price = Unset, u_quantity = Unset,
                 u_description = Unset, u_category = Unset\<rparr> d =
      (Ok_product p, map (\<lambda>q. if p_id q = i then p else q) d)"
    using no_other_same_name [OF ok(1) st] fit
    by (simp add: update_product_validated [OF assms(2) v] r) (simp add: empty_body_def)
  then have "update_product i \<lparr>u_name = Unset, u_price = Unset, u_quantity = Unset,
                 u_description = Unset, u_category = Unset\<rparr> d = (Ok_product p, d)"
    by (simp add: replace_found_row [OF ok(1) assms(2)])
  with v acc show ?thesis by (simp add: response_model_product)
qed

theorem update_empty_body_witness:
  "run two_creates [] = [widget, gadget] \<and>
   query_first [widget, gadget] 1 = Inr (Some widget) \<and>
   handle (PUT_product 1 \<lparr>r_name = Unset, r_price = Unset, r_quantity = Unset,
                          r_description = Unset, r_category = Unset\<rparr>) [widget, gadget] =
     (Ok_product widget, [widget, gadget])"
proof -
  have r: "run two_creates [] = [widget, gadget]"
    by (simp add: validation_defs handler_defs)
  have q: "query_first [widget, gadget] 1 = Inr (Some widget)"
    by (simp add: query_first_def first_row_def int64_def)
  from update_empty_body [OF r q]
  have a: "handle (PUT_product 1 empty_body) [widget, gadget] = (Ok_product widget, [widget, gadget])"
    by blast
  from a r q show ?thesis by (simp add: empty_body_def del: handle.simps run.simps)
qed

end
